theory Spec2Isabelle
  imports Complex_Main
begin

section \<open>Tensors and Python objects\<close>

text \<open>
  The transforms of \<^verbatim>\<open>relie/se3_exp_transform.py\<close> work on torch tensors. An algebra
  element is a tensor whose last dimension holds the six twist coordinates (the first
  three rotational); the array of candidates has one more dimension for the branches.
  Here an algebra element is a list of scalars and an array of candidates is a list of
  rows, one row per entry of the leading dimensions. The source treats the entries of a
  batch independently, so one algebra element and one group element stand for the batch.
  Scalars are real numbers: rounding, infinities and NaN of the floating-point type are
  not represented.
\<close>

type_synonym vec = "real list"
type_synonym vecs = "real list list"

text \<open>\<^verbatim>\<open>t.norm(dim=-1)\<close> on one row: the Euclidean norm.\<close>

definition tensor_norm :: "vec \<Rightarrow> real" where
  "tensor_norm v = sqrt (\<Sum>a\<leftarrow>v. a\<^sup>2)"

text \<open>
  \<^verbatim>\<open>t.masked_fill_(m[..., None], v)\<close>: the mask has one entry per row and is broadcast
  along the last dimension, so a row whose entry is true is overwritten with \<open>v\<close> in
  every component and every other row is kept. The tensor is changed in place; it is
  the local \<^verbatim>\<open>xset\<close>, which the branch generator has just built, and the function
  returns the changed value.
\<close>

definition masked_fill :: "vecs \<Rightarrow> bool list \<Rightarrow> real \<Rightarrow> vecs" where
  "masked_fill t m v = map (\<lambda>(row, b). if b then map (\<lambda>_. v) row else row) (zip t m)"

text \<open>\<^verbatim>\<open>torch.full(t.shape[:-1], True)\<close>: one entry per row of \<open>t\<close>.\<close>

definition full_True :: "vecs \<Rightarrow> bool list" where
  "full_True t = replicate (length t) True"

text \<open>\<^verbatim>\<open>t.float()\<close> converts the element type; on real numbers nothing changes.\<close>

definition tensor_float :: "real \<Rightarrow> real" where
  "tensor_float a = a"

text \<open>
  A Python object has an identity, which \<^verbatim>\<open>is\<close> compares, and a value. New objects
  take their identity from a counter that every operation creating one advances.
\<close>

record 'v tensor =
  ident :: nat
  data :: 'v

definition new_tensor :: "nat \<Rightarrow> 'v \<Rightarrow> 'v tensor" where
  "new_tensor n v = \<lparr>ident = n, data = v\<rparr>"

datatype py_error = ValueError

section \<open>The base class \<^verbatim>\<open>torch.distributions.Transform\<close>\<close>

text \<open>
  The three classes inherit their constructor and the public call from torch's
  \<^verbatim>\<open>Transform\<close>. Its constructor takes \<^verbatim>\<open>cache_size\<close>, 0 by default, and accepts 0
  and 1 only. With cache size 1 the object keeps the latest pair in \<^verbatim>\<open>_cached_x_y\<close>,
  initially \<^verbatim>\<open>(None, None)\<close>; both components are always written together, so the
  attribute is an optional pair here.
  \<^verbatim>\<open>
  def __call__(self, x):
      if self._cache_size == 0:
          return self._call(x)
      x_old, y_old = self._cached_x_y
      if x is x_old:
          return y_old
      y = self._call(x)
      self._cached_x_y = x, y
      return y

  def _inv_call(self, y):
      if self._cache_size == 0:
          return self._inverse(y)
      x_old, y_old = self._cached_x_y
      if y is y_old:
          return x_old
      x = self._inverse(y)
      self._cached_x_y = x, y
      return x
  \<close>
  Each operation takes the object and the identity counter and returns the result, the
  object after the call and the counter after the call.
\<close>

record 'g Transform =
  cache_size :: int
  cached_x_y :: "(vec tensor \<times> 'g tensor) option"

definition Transform_init :: "int \<Rightarrow> py_error + 'g Transform" where
  "Transform_init c =
     (if c = 0 then Inr \<lparr>cache_size = c, cached_x_y = None\<rparr>
      else if c = 1 then Inr \<lparr>cache_size = c, cached_x_y = None\<rparr>
      else Inl ValueError)"

definition Transform_dunder_call ::
  "(vec \<Rightarrow> 'g) \<Rightarrow> ('g, 'm) Transform_scheme \<Rightarrow> vec tensor \<Rightarrow> nat
     \<Rightarrow> 'g tensor \<times> ('g, 'm) Transform_scheme \<times> nat" where
  "Transform_dunder_call call_method self x n =
     (if cache_size self = 0 then (new_tensor n (call_method (data x)), self, Suc n)
      else
        (case cached_x_y self of
           Some (x_old, y_old) \<Rightarrow>
             if ident x = ident x_old then (y_old, self, n)
             else (let y = new_tensor n (call_method (data x))
                   in (y, self\<lparr>cached_x_y := Some (x, y)\<rparr>, Suc n))
         | None \<Rightarrow>
             (let y = new_tensor n (call_method (data x))
              in (y, self\<lparr>cached_x_y := Some (x, y)\<rparr>, Suc n))))"

definition Transform_inv_call ::
  "('g \<Rightarrow> vec) \<Rightarrow> ('g, 'm) Transform_scheme \<Rightarrow> 'g tensor \<Rightarrow> nat
     \<Rightarrow> vec tensor \<times> ('g, 'm) Transform_scheme \<times> nat" where
  "Transform_inv_call inverse_method self y n =
     (if cache_size self = 0 then (new_tensor n (inverse_method (data y)), self, Suc n)
      else
        (case cached_x_y self of
           Some (x_old, y_old) \<Rightarrow>
             if ident y = ident y_old then (x_old, self, n)
             else (let x = new_tensor n (inverse_method (data y))
                   in (x, self\<lparr>cached_x_y := Some (x, y)\<rparr>, Suc n))
         | None \<Rightarrow>
             (let x = new_tensor n (inverse_method (data y))
              in (x, self\<lparr>cached_x_y := Some (x, y)\<rparr>, Suc n))))"

section \<open>The parts of the package that the transforms import\<close>

text \<open>
  \<^verbatim>\<open>se3_exp\<close>, \<^verbatim>\<open>se3_log\<close>, \<^verbatim>\<open>se3_log_abs_det_jacobian\<close> and \<^verbatim>\<open>se3_xset\<close> come from
  \<^verbatim>\<open>relie.utils.se3_tools\<close> and \<^verbatim>\<open>LocalDiffeoTransform\<close> from the package root; neither
  file is among the sources. The four functions are arguments of the definitions below,
  so that the theorems hold for every choice of them; a group element has the type
  \<open>'g\<close>. The spec has the branch generator produce the candidates as new values: the
  array it returns is taken to share no storage with its argument, so that zero-filling
  the array in place leaves the argument as it was.
\<close>

text \<open>
  Modelled from the spec: \<^verbatim>\<open>LocalDiffeoTransform.__init__\<close>, which is missing. The
  subclasses call it without arguments and the spec gives the transforms no state or
  cache beyond their configuration, so it is the base constructor with its default
  cache size 0.
\<close>

definition LocalDiffeoTransform_init :: "py_error + 'g Transform" where
  "LocalDiffeoTransform_init = Transform_init 0"

text \<open>
  Modelled from the spec: \<^verbatim>\<open>LocalDiffeoTransform.inverse_set\<close>, which is missing. The
  spec's \<^verbatim>\<open>inverse_set(y) -> (representative_x, candidate_xs, validity_mask)\<close> is a pure
  computation: it hands \<open>y\<close> to the subclass's \<^verbatim>\<open>_inverse_set\<close> and returns the three
  new tensors.
\<close>

definition LocalDiffeoTransform_inverse_set ::
  "('g \<Rightarrow> vec \<times> vecs \<times> bool list) \<Rightarrow> ('g, 'm) Transform_scheme \<Rightarrow> 'g tensor \<Rightarrow> nat
     \<Rightarrow> (vec tensor \<times> vecs tensor \<times> bool list tensor) \<times> ('g, 'm) Transform_scheme \<times> nat" where
  "LocalDiffeoTransform_inverse_set inverse_set_method self y n =
     (case inverse_set_method (data y) of
        (x, xset, mask') \<Rightarrow>
          ((new_tensor n x, new_tensor (n + 1) xset, new_tensor (n + 2) mask'), self, n + 3))"

text \<open>
  Modelled from the spec: \<^verbatim>\<open>se3_xset\<close>, which is missing. For the principal element
  \<open>x\<close> and the window \<open>k_max\<close> it lists, for \<open>k\<close> from \<open>-k_max\<close> to \<open>k_max\<close>, the
  element along the same rotation axis whose signed rotation angle is \<open>\<theta> + 2\<pi>k\<close>,
  with the translational components unchanged; \<open>k = 0\<close> gives \<open>x\<close> back. The spec
  leaves the axis open where the rotation is zero (an arbitrary or default axis), so
  that axis is the argument \<open>axis0\<close>.
\<close>

definition se3_branch :: "vec \<Rightarrow> vec \<Rightarrow> int \<Rightarrow> vec" where
  "se3_branch axis0 x k =
     (let \<theta> = tensor_norm (take 3 x);
          axis = (if \<theta> = 0 then axis0 else map (\<lambda>a. a / \<theta>) (take 3 x))
      in (if k = 0 then x
          else map (\<lambda>a. a * (\<theta> + 2 * pi * real_of_int k)) axis @ drop 3 x))"

definition se3_xset_spec :: "vec \<Rightarrow> vec \<Rightarrow> int \<Rightarrow> vecs" where
  "se3_xset_spec axis0 x k_max = map (se3_branch axis0 x) [- k_max..k_max]"

section \<open>\<^verbatim>\<open>SE3ExpTransform\<close>\<close>

record 'g SE3ExpTransform = "'g Transform" +
  k_max :: int

definition SE3ExpTransform_init :: "int \<Rightarrow> py_error + 'g SE3ExpTransform" where
  "SE3ExpTransform_init k =
     (case LocalDiffeoTransform_init of
        Inl e \<Rightarrow> Inl e
      | Inr self \<Rightarrow> Inr (Transform.extend self (SE3ExpTransform.fields k)))"

definition SE3ExpTransform_call ::
  "(vec \<Rightarrow> 'g) \<Rightarrow> ('g, 'm) SE3ExpTransform_scheme \<Rightarrow> vec \<Rightarrow> 'g" where
  "SE3ExpTransform_call se3_exp self x = se3_exp x"

definition SE3ExpTransform_xset ::
  "(vec \<Rightarrow> int \<Rightarrow> vecs) \<Rightarrow> ('g, 'm) SE3ExpTransform_scheme \<Rightarrow> vec
     \<Rightarrow> vec \<times> vecs \<times> bool list" where
  "SE3ExpTransform_xset se3_xset self x =
     (let xset = se3_xset x (k_max self);
          mask' = full_True xset
      in (x, xset, mask'))"

definition SE3ExpTransform_inverse_set ::
  "('g \<Rightarrow> vec) \<Rightarrow> (vec \<Rightarrow> int \<Rightarrow> vecs) \<Rightarrow> ('g, 'm) SE3ExpTransform_scheme \<Rightarrow> 'g
     \<Rightarrow> vec \<times> vecs \<times> bool list" where
  "SE3ExpTransform_inverse_set se3_log se3_xset self y =
     SE3ExpTransform_xset se3_xset self (se3_log y)"

definition SE3ExpTransform_log_abs_det_jacobian ::
  "(vec \<Rightarrow> real) \<Rightarrow> ('g, 'm) SE3ExpTransform_scheme \<Rightarrow> vec \<Rightarrow> 'g \<Rightarrow> real" where
  "SE3ExpTransform_log_abs_det_jacobian se3_log_abs_det_jacobian self x y =
     tensor_float (se3_log_abs_det_jacobian x)"

section \<open>\<^verbatim>\<open>SE3ExpCompactTransform\<close>\<close>

record 'g SE3ExpCompactTransform = "'g Transform" +
  support_radius :: real

definition SE3ExpCompactTransform_init :: "real \<Rightarrow> py_error + 'g SE3ExpCompactTransform" where
  "SE3ExpCompactTransform_init r =
     (case LocalDiffeoTransform_init of
        Inl e \<Rightarrow> Inl e
      | Inr self \<Rightarrow> Inr (Transform.extend self (SE3ExpCompactTransform.fields r)))"

definition SE3ExpCompactTransform_call ::
  "(vec \<Rightarrow> 'g) \<Rightarrow> ('g, 'm) SE3ExpCompactTransform_scheme \<Rightarrow> vec \<Rightarrow> 'g" where
  "SE3ExpCompactTransform_call se3_exp self x = se3_exp x"

definition SE3ExpCompactTransform_xset ::
  "(vec \<Rightarrow> int \<Rightarrow> vecs) \<Rightarrow> ('g, 'm) SE3ExpCompactTransform_scheme \<Rightarrow> vec
     \<Rightarrow> vec \<times> vecs \<times> bool list" where
  "SE3ExpCompactTransform_xset se3_xset self x =
     (let xset = se3_xset x 1;
          norms = map (\<lambda>row. tensor_norm (take 3 row)) xset;
          mask' = map (\<lambda>n. n < support_radius self) norms;
          xset = masked_fill xset (map Not mask') 0
      in (x, xset, mask'))"

definition SE3ExpCompactTransform_inverse_set ::
  "('g \<Rightarrow> vec) \<Rightarrow> (vec \<Rightarrow> int \<Rightarrow> vecs) \<Rightarrow> ('g, 'm) SE3ExpCompactTransform_scheme \<Rightarrow> 'g
     \<Rightarrow> vec \<times> vecs \<times> bool list" where
  "SE3ExpCompactTransform_inverse_set se3_log se3_xset self y =
     SE3ExpCompactTransform_xset se3_xset self (se3_log y)"

definition SE3ExpCompactTransform_log_abs_det_jacobian ::
  "(vec \<Rightarrow> real) \<Rightarrow> ('g, 'm) SE3ExpCompactTransform_scheme \<Rightarrow> vec \<Rightarrow> 'g \<Rightarrow> real" where
  "SE3ExpCompactTransform_log_abs_det_jacobian se3_log_abs_det_jacobian self x y =
     tensor_float (se3_log_abs_det_jacobian x)"

section \<open>\<^verbatim>\<open>SE3ExpBijectiveTransform\<close>\<close>

text \<open>The class adds no attribute; its constructor is \<^verbatim>\<open>super().__init__(1)\<close>.\<close>

type_synonym 'g SE3ExpBijectiveTransform = "'g Transform"

definition SE3ExpBijectiveTransform_init :: "py_error + 'g SE3ExpBijectiveTransform" where
  "SE3ExpBijectiveTransform_init = Transform_init 1"

definition SE3ExpBijectiveTransform_call ::
  "(vec \<Rightarrow> 'g) \<Rightarrow> 'g SE3ExpBijectiveTransform \<Rightarrow> vec \<Rightarrow> 'g" where
  "SE3ExpBijectiveTransform_call se3_exp self x = se3_exp x"

definition SE3ExpBijectiveTransform_inverse ::
  "('g \<Rightarrow> vec) \<Rightarrow> 'g SE3ExpBijectiveTransform \<Rightarrow> 'g \<Rightarrow> vec" where
  "SE3ExpBijectiveTransform_inverse se3_log self y = se3_log y"

definition SE3ExpBijectiveTransform_log_abs_det_jacobian ::
  "(vec \<Rightarrow> real) \<Rightarrow> 'g SE3ExpBijectiveTransform \<Rightarrow> vec \<Rightarrow> 'g \<Rightarrow> real" where
  "SE3ExpBijectiveTransform_log_abs_det_jacobian se3_log_abs_det_jacobian self x y =
     tensor_float (se3_log_abs_det_jacobian x)"

section \<open>The public operations\<close>

text \<open>
  \<^verbatim>\<open>t(x)\<close> is the inherited \<^verbatim>\<open>__call__\<close> around the class's \<^verbatim>\<open>_call\<close>; \<^verbatim>\<open>t.inv(y)\<close> is
  the inherited \<^verbatim>\<open>_inv_call\<close> around \<^verbatim>\<open>_inverse\<close>; \<^verbatim>\<open>inverse_set\<close> is the one of
  \<^verbatim>\<open>LocalDiffeoTransform\<close> around \<^verbatim>\<open>_inverse_set\<close>.
\<close>

definition SE3ExpTransform_forward ::
  "(vec \<Rightarrow> 'g) \<Rightarrow> 'g SE3ExpTransform \<Rightarrow> vec tensor \<Rightarrow> nat
     \<Rightarrow> 'g tensor \<times> 'g SE3ExpTransform \<times> nat" where
  "SE3ExpTransform_forward se3_exp self x n =
     Transform_dunder_call (SE3ExpTransform_call se3_exp self) self x n"

definition SE3ExpTransform_public_inverse_set ::
  "('g \<Rightarrow> vec) \<Rightarrow> (vec \<Rightarrow> int \<Rightarrow> vecs) \<Rightarrow> 'g SE3ExpTransform \<Rightarrow> 'g tensor \<Rightarrow> nat
     \<Rightarrow> (vec tensor \<times> vecs tensor \<times> bool list tensor) \<times> 'g SE3ExpTransform \<times> nat" where
  "SE3ExpTransform_public_inverse_set se3_log se3_xset self y n =
     LocalDiffeoTransform_inverse_set (SE3ExpTransform_inverse_set se3_log se3_xset self) self y n"

definition SE3ExpCompactTransform_forward ::
  "(vec \<Rightarrow> 'g) \<Rightarrow> 'g SE3ExpCompactTransform \<Rightarrow> vec tensor \<Rightarrow> nat
     \<Rightarrow> 'g tensor \<times> 'g SE3ExpCompactTransform \<times> nat" where
  "SE3ExpCompactTransform_forward se3_exp self x n =
     Transform_dunder_call (SE3ExpCompactTransform_call se3_exp self) self x n"

definition SE3ExpCompactTransform_public_inverse_set ::
  "('g \<Rightarrow> vec) \<Rightarrow> (vec \<Rightarrow> int \<Rightarrow> vecs) \<Rightarrow> 'g SE3ExpCompactTransform \<Rightarrow> 'g tensor \<Rightarrow> nat
     \<Rightarrow> (vec tensor \<times> vecs tensor \<times> bool list tensor) \<times> 'g SE3ExpCompactTransform \<times> nat" where
  "SE3ExpCompactTransform_public_inverse_set se3_log se3_xset self y n =
     LocalDiffeoTransform_inverse_set
       (SE3ExpCompactTransform_inverse_set se3_log se3_xset self) self y n"

definition SE3ExpBijectiveTransform_forward ::
  "(vec \<Rightarrow> 'g) \<Rightarrow> 'g SE3ExpBijectiveTransform \<Rightarrow> vec tensor \<Rightarrow> nat
     \<Rightarrow> 'g tensor \<times> 'g SE3ExpBijectiveTransform \<times> nat" where
  "SE3ExpBijectiveTransform_forward se3_exp self x n =
     Transform_dunder_call (SE3ExpBijectiveTransform_call se3_exp self) self x n"

definition SE3ExpBijectiveTransform_inv ::
  "('g \<Rightarrow> vec) \<Rightarrow> 'g SE3ExpBijectiveTransform \<Rightarrow> 'g tensor \<Rightarrow> nat
     \<Rightarrow> vec tensor \<times> 'g SE3ExpBijectiveTransform \<times> nat" where
  "SE3ExpBijectiveTransform_inv se3_log self y n =
     Transform_inv_call (SE3ExpBijectiveTransform_inverse se3_log self) self y n"

text \<open>
  A transform object lives through a sequence of public calls. For the bijective
  transform, which is the one constructed with a cache, the sequence is run from a
  state and an identity counter; the results of the calls are dropped.
\<close>

datatype 'g bijective_op = Forward "vec tensor" | Inverse "'g tensor"

fun bijective_run ::
  "(vec \<Rightarrow> 'g) \<Rightarrow> ('g \<Rightarrow> vec) \<Rightarrow> 'g bijective_op list
     \<Rightarrow> 'g SE3ExpBijectiveTransform \<times> nat \<Rightarrow> 'g SE3ExpBijectiveTransform \<times> nat" where
  "bijective_run se3_exp se3_log [] s = s"
| "bijective_run se3_exp se3_log (Forward x # ops) (self, n) =
     bijective_run se3_exp se3_log ops (snd (SE3ExpBijectiveTransform_forward se3_exp self x n))"
| "bijective_run se3_exp se3_log (Inverse y # ops) (self, n) =
     bijective_run se3_exp se3_log ops (snd (SE3ExpBijectiveTransform_inv se3_log self y n))"

section \<open>Concrete runs\<close>

text \<open>
  The theorems below hold for every choice of the imported primitives. To run the
  transforms on concrete inputs, a group element is written \<open>Exp x\<close>, the image of
  the algebra element \<open>x\<close> under the exponential map, so that \<^verbatim>\<open>se3_exp\<close> is the
  constructor. The logarithm of \<open>Exp x\<close> is the branch of \<open>x\<close>, in the generator of
  the spec, whose signed rotation angle lies between \<open>-\<pi>\<close> and \<open>\<pi>\<close>: \<open>x\<close> itself
  when the rotational norm of \<open>x\<close> is below the injectivity radius \<open>\<pi>\<close>, and a
  wrapped element from there on, as the spec describes for the bijective transform.
\<close>

datatype se3 = Exp vec

definition default_axis :: vec where
  "default_axis = [1, 0, 0]"

definition se3_log_principal :: "se3 \<Rightarrow> vec" where
  "se3_log_principal y =
     (case y of
        Exp x \<Rightarrow>
          se3_branch default_axis x (- \<lfloor>(tensor_norm (take 3 x) + pi) / (2 * pi)\<rfloor>))"

text \<open>The rotation by one radian about the third axis, with no translation.\<close>

definition x_rot1 :: vec where
  "x_rot1 = [0, 0, 1, 0, 0, 0]"

text \<open>The rotation by four radians about the third axis: outside the injectivity radius.\<close>

definition x_rot4 :: vec where
  "x_rot4 = [0, 0, 4, 0, 0, 0]"

text \<open>\<^verbatim>\<open>SE3ExpCompactTransform()\<close> with its default radius \<open>2\<pi>\<close>, as constructed.\<close>

definition compact_default :: "se3 SE3ExpCompactTransform" where
  "compact_default = \<lparr>cache_size = 0, cached_x_y = None, support_radius = 2 * pi\<rparr>"

text \<open>\<^verbatim>\<open>SE3ExpTransform()\<close> with its default window 5, as constructed.\<close>

definition full_default :: "se3 SE3ExpTransform" where
  "full_default = \<lparr>cache_size = 0, cached_x_y = None, k_max = 5\<rparr>"

text \<open>\<^verbatim>\<open>SE3ExpBijectiveTransform()\<close>, as constructed.\<close>

definition bijective_fresh :: "se3 SE3ExpBijectiveTransform" where
  "bijective_fresh = \<lparr>cache_size = 1, cached_x_y = None\<rparr>"

section \<open>Facts about the tensor operations\<close>

lemma length_masked_fill: "length m = length t \<Longrightarrow> length (masked_fill t m v) = length t"
  by (simp add: masked_fill_def)

lemma nth_masked_fill:
  "length m = length t \<Longrightarrow> i < length t \<Longrightarrow>
     masked_fill t m v ! i = (if m ! i then map (\<lambda>_. v) (t ! i) else t ! i)"
  by (simp add: masked_fill_def)

lemma length_se3_xset_spec: "length (se3_xset_spec axis0 x k) = nat (2 * k + 1)"
  by (simp add: se3_xset_spec_def)

lemma compact_default_init: "SE3ExpCompactTransform_init (2 * pi) = Inr compact_default"
  by (simp add: SE3ExpCompactTransform_init_def LocalDiffeoTransform_init_def Transform_init_def
      compact_default_def Transform.defs SE3ExpCompactTransform.defs)

lemma full_default_init: "SE3ExpTransform_init 5 = Inr full_default"
  by (simp add: SE3ExpTransform_init_def LocalDiffeoTransform_init_def Transform_init_def
      full_default_def Transform.defs SE3ExpTransform.defs)

lemma bijective_fresh_init: "SE3ExpBijectiveTransform_init = Inr bijective_fresh"
  by (simp add: SE3ExpBijectiveTransform_init_def Transform_init_def bijective_fresh_def)

lemma compact_inverse_set_unfold:
  "SE3ExpCompactTransform_inverse_set se3_log se3_xset self y =
     (se3_log y,
      masked_fill (se3_xset (se3_log y) 1)
        (map (\<lambda>row. \<not> tensor_norm (take 3 row) < support_radius self) (se3_xset (se3_log y) 1)) 0,
      map (\<lambda>row. tensor_norm (take 3 row) < support_radius self) (se3_xset (se3_log y) 1))"
  by (simp add: SE3ExpCompactTransform_inverse_set_def SE3ExpCompactTransform_xset_def
      Let_def comp_def)

lemma upto_window1: "[- 1..1::int] = [- 1, 0, 1]"
  by (simp add: upto.simps)

lemma tensor_norm_3: "tensor_norm [a, b, c] = sqrt (a\<^sup>2 + b\<^sup>2 + c\<^sup>2)"
  by (simp add: tensor_norm_def)

lemma tensor_norm_axis3: "0 \<le> c \<Longrightarrow> tensor_norm [0, 0, c] = c"
  by (simp add: tensor_norm_def)

lemma floor_x_rot1: "\<lfloor>(1 + pi) / (2 * pi)\<rfloor> = 0"
proof -
  have "0 \<le> (1 + pi) / (2 * pi)"
    using pi_ge_two by simp
  moreover have "(1 + pi) / (2 * pi) < 1"
    using pi_ge_two by simp
  ultimately show ?thesis
    by (simp add: floor_eq_iff)
qed

lemma floor_x_rot4: "\<lfloor>(4 + pi) / (2 * pi)\<rfloor> = 1"
proof -
  have "1 \<le> (4 + pi) / (2 * pi)"
    using pi_less_4 pi_ge_two by (simp add: field_simps)
  moreover have "(4 + pi) / (2 * pi) < 2"
    using pi_ge_two by (simp add: field_simps)
  ultimately show ?thesis
    by (simp add: floor_eq_iff)
qed

lemma se3_log_principal_x_rot1: "se3_log_principal (Exp x_rot1) = x_rot1"
  by (simp add: se3_log_principal_def x_rot1_def tensor_norm_axis3 floor_x_rot1 se3_branch_def)

lemma se3_log_principal_x_rot4:
  "se3_log_principal (Exp x_rot4) = [0, 0, 4 - 2 * pi, 0, 0, 0]"
  by (simp add: se3_log_principal_def x_rot4_def tensor_norm_axis3 floor_x_rot4 se3_branch_def)

lemma se3_xset_spec_x_rot1:
  "se3_xset_spec default_axis x_rot1 1 =
     [[0, 0, 1 - 2 * pi, 0, 0, 0], [0, 0, 1, 0, 0, 0], [0, 0, 1 + 2 * pi, 0, 0, 0]]"
  by (simp add: se3_xset_spec_def se3_branch_def x_rot1_def upto_window1 tensor_norm_3)

lemma compact_default_x_rot1:
  "SE3ExpCompactTransform_inverse_set se3_log_principal (se3_xset_spec default_axis)
     compact_default (Exp x_rot1) =
   (x_rot1,
    [[0, 0, 1 - 2 * pi, 0, 0, 0], [0, 0, 1, 0, 0, 0], [0, 0, 0, 0, 0, 0]],
    [True, True, False])"
  using pi_ge_two
  by (simp add: compact_inverse_set_unfold se3_log_principal_x_rot1 se3_xset_spec_x_rot1
      masked_fill_def tensor_norm_3 compact_default_def)

lemma compact_small_radius_x_rot1:
  "SE3ExpCompactTransform_inverse_set se3_log_principal (se3_xset_spec default_axis)
     (compact_default\<lparr>support_radius := 1 / 2\<rparr>) (Exp x_rot1) =
   (x_rot1,
    [[0, 0, 0, 0, 0, 0], [0, 0, 0, 0, 0, 0], [0, 0, 0, 0, 0, 0]],
    [False, False, False])"
  using pi_ge_two
  by (simp add: compact_inverse_set_unfold se3_log_principal_x_rot1 se3_xset_spec_x_rot1
      masked_fill_def tensor_norm_3 compact_default_def)

section \<open>The bounded-radius transform\<close>

text \<open>
  C2, as amended. For \<^verbatim>\<open>SE3ExpCompactTransform\<close>, every group element \<open>y\<close> and every
  index \<open>i\<close>, the entry \<open>i\<close> of the validity mask returned by \<^verbatim>\<open>inverse_set(y)\<close> is
  true exactly when the rotational norm (the first three components) of candidate \<open>i\<close>
  as the branch generator enumerated it, before the zero-fill, is strictly below
  \<^verbatim>\<open>support_radius\<close>. The mask and the returned candidates have one entry per
  enumerated candidate, whatever the mask holds, and a candidate marked valid is
  returned as enumerated.
\<close>

theorem compact_mask_correct:
  assumes "SE3ExpCompactTransform_inverse_set se3_log se3_xset self y = (rep, cands, valid)"
  shows "length valid = length (se3_xset (se3_log y) 1) \<and>
         length cands = length (se3_xset (se3_log y) 1) \<and>
         (\<forall>i < length (se3_xset (se3_log y) 1).
            (valid ! i \<longleftrightarrow>
               tensor_norm (take 3 (se3_xset (se3_log y) 1 ! i)) < support_radius self) \<and>
            (valid ! i \<longrightarrow> cands ! i = se3_xset (se3_log y) 1 ! i))"
proof -
  let ?xset = "se3_xset (se3_log y) 1"
  have valid: "valid = map (\<lambda>row. tensor_norm (take 3 row) < support_radius self) ?xset"
    using assms by (auto simp: compact_inverse_set_unfold)
  have cands: "cands = masked_fill ?xset
      (map (\<lambda>row. \<not> tensor_norm (take 3 row) < support_radius self) ?xset) 0"
    using assms by (auto simp: compact_inverse_set_unfold)
  have len_valid: "length valid = length ?xset"
    by (simp add: valid)
  have len_cands: "length cands = length ?xset"
    by (simp add: cands length_masked_fill)
  have rows: "\<forall>i < length ?xset.
      (valid ! i \<longleftrightarrow> tensor_norm (take 3 (?xset ! i)) < support_radius self) \<and>
      (valid ! i \<longrightarrow> cands ! i = ?xset ! i)"
    by (simp add: valid cands nth_masked_fill)
  from len_valid len_cands rows show ?thesis
    by (intro conjI)
qed

theorem compact_mask_correct_witness:
  "SE3ExpCompactTransform_inverse_set se3_log_principal (se3_xset_spec default_axis)
     compact_default (Exp x_rot1) =
     (x_rot1, [[0, 0, 1 - 2 * pi, 0, 0, 0], [0, 0, 1, 0, 0, 0], [0, 0, 0, 0, 0, 0]],
      [True, True, False]) \<and>
   (2::nat) < length [True, True, False] \<and>
   \<not> tensor_norm (take 3 (se3_xset_spec default_axis (se3_log_principal (Exp x_rot1)) 1 ! 2))
       < support_radius compact_default"
proof -
  have run: "SE3ExpCompactTransform_inverse_set se3_log_principal (se3_xset_spec default_axis)
     compact_default (Exp x_rot1) =
     (x_rot1, [[0, 0, 1 - 2 * pi, 0, 0, 0], [0, 0, 1, 0, 0, 0], [0, 0, 0, 0, 0, 0]],
      [True, True, False])"
    by (rule compact_default_x_rot1)
  have idx: "(2::nat) < length (se3_xset_spec default_axis (se3_log_principal (Exp x_rot1)) 1)"
    by (simp add: length_se3_xset_spec)
  from compact_mask_correct [OF run] idx
  have "[True, True, False] ! 2 \<longleftrightarrow>
      tensor_norm (take 3 (se3_xset_spec default_axis (se3_log_principal (Exp x_rot1)) 1 ! 2))
        < support_radius compact_default"
    by blast
  then show ?thesis
    using run by simp
qed

text \<open>
  C2, as stated, reads the norm off the returned \<^verbatim>\<open>candidate_xs\<close>. It fails for the
  default transform at the rotation by one radian: the branch \<open>k = 1\<close> has rotational
  norm \<open>1 + 2\<pi>\<close>, so its mask entry is false and its row is zero-filled, and the
  returned row has norm 0, which is below the radius \<open>2\<pi>\<close>.
\<close>

theorem compact_mask_returned_counterexample:
  "\<not> (snd (snd (SE3ExpCompactTransform_inverse_set se3_log_principal
                  (se3_xset_spec default_axis) compact_default (Exp x_rot1))) ! 2
      \<longleftrightarrow>
      tensor_norm (take 3 (fst (snd (SE3ExpCompactTransform_inverse_set se3_log_principal
                  (se3_xset_spec default_axis) compact_default (Exp x_rot1))) ! 2))
        < support_radius compact_default)"
  by (simp add: compact_default_x_rot1 tensor_norm_3) (simp add: compact_default_def)

text \<open>
  C3. For \<^verbatim>\<open>SE3ExpCompactTransform\<close>, every candidate of the returned \<^verbatim>\<open>candidate_xs\<close>
  whose mask entry is false has all its components exactly zero: the row keeps its
  length and holds nothing but zeros.
\<close>

theorem compact_zero_fill:
  assumes "SE3ExpCompactTransform_inverse_set se3_log se3_xset self y = (rep, cands, valid)"
    and "i < length valid" and "\<not> valid ! i"
  shows "cands ! i = replicate (length (se3_xset (se3_log y) 1 ! i)) 0"
  using assms
  by (auto simp: compact_inverse_set_unfold length_masked_fill nth_masked_fill map_replicate_const)

theorem compact_zero_fill_witness:
  "SE3ExpCompactTransform_inverse_set se3_log_principal (se3_xset_spec default_axis)
     compact_default (Exp x_rot1) =
     (x_rot1, [[0, 0, 1 - 2 * pi, 0, 0, 0], [0, 0, 1, 0, 0, 0], [0, 0, 0, 0, 0, 0]],
      [True, True, False]) \<and>
   (2::nat) < length [True, True, False] \<and> \<not> [True, True, False] ! 2 \<and>
   [[0, 0, 1 - 2 * pi, 0, 0, 0], [0, 0, 1, 0, 0, 0], [0, 0, 0, 0, 0, 0]] ! 2
     = replicate (length (se3_xset_spec default_axis (se3_log_principal (Exp x_rot1)) 1 ! 2))
         (0::real)"
proof -
  have run: "SE3ExpCompactTransform_inverse_set se3_log_principal (se3_xset_spec default_axis)
     compact_default (Exp x_rot1) =
     (x_rot1, [[0, 0, 1 - 2 * pi, 0, 0, 0], [0, 0, 1, 0, 0, 0], [0, 0, 0, 0, 0, 0]],
      [True, True, False])"
    by (rule compact_default_x_rot1)
  have idx: "(2::nat) < length [True, True, False]"
    by simp
  have off: "\<not> [True, True, False] ! 2"
    by simp
  from compact_zero_fill [OF run idx off] show ?thesis
    using run by (simp add: se3_log_principal_x_rot1 se3_xset_spec_x_rot1)
qed

text \<open>
  C5. For \<^verbatim>\<open>SE3ExpCompactTransform\<close>, \<^verbatim>\<open>inverse_set\<close> calls the branch generator with the
  window 1 whatever the configured \<^verbatim>\<open>support_radius\<close>. With the generator of the spec
  the branch dimension of the candidates and of the mask is exactly 3, one entry for
  each of \<open>k = -1, 0, 1\<close>.
\<close>

theorem compact_window_three:
  "length (fst (snd (SE3ExpCompactTransform_inverse_set se3_log (se3_xset_spec axis0) self y))) = 3 \<and>
   length (snd (snd (SE3ExpCompactTransform_inverse_set se3_log (se3_xset_spec axis0) self y))) = 3 \<and>
   snd (snd (SE3ExpCompactTransform_inverse_set se3_log (se3_xset_spec axis0) self y)) =
     map (\<lambda>k. tensor_norm (take 3 (se3_branch axis0 (se3_log y) k)) < support_radius self)
       [- 1, 0, 1]"
  by (simp add: compact_inverse_set_unfold length_masked_fill length_se3_xset_spec)
    (simp add: se3_xset_spec_def upto_window1)

text \<open>
  C10. For \<^verbatim>\<open>SE3ExpCompactTransform\<close>, the representative returned by \<^verbatim>\<open>inverse_set(y)\<close>
  is \<^verbatim>\<open>se3_log(y)\<close> as computed: the mask and the zero-fill touch the candidate array
  only. The run \<open>compact_small_radius_x_rot1\<close> above is a case where the principal
  branch itself is masked out and zeroed while the representative is returned whole.
\<close>

theorem compact_representative_raw:
  "fst (SE3ExpCompactTransform_inverse_set se3_log se3_xset self y) = se3_log y"
  by (simp add: compact_inverse_set_unfold)

section \<open>The full-window transform\<close>

text \<open>
  C4. For \<^verbatim>\<open>SE3ExpTransform\<close> and every group element \<open>y\<close>, the mask returned by
  \<^verbatim>\<open>inverse_set(y)\<close> is true at every enumerated branch, whatever its magnitude; the
  candidates are the generator's output for the window \<^verbatim>\<open>k_max\<close>, unchanged, and with
  the generator of the spec there are \<open>2 k_max + 1\<close> of them.
\<close>

theorem full_mask_all_true:
  "snd (snd (SE3ExpTransform_inverse_set se3_log se3_xset self y)) =
     replicate (length (fst (snd (SE3ExpTransform_inverse_set se3_log se3_xset self y)))) True \<and>
   fst (snd (SE3ExpTransform_inverse_set se3_log se3_xset self y)) =
     se3_xset (se3_log y) (k_max self) \<and>
   snd (snd (SE3ExpTransform_inverse_set se3_log (se3_xset_spec axis0) self y)) =
     replicate (nat (2 * k_max self + 1)) True"
  by (simp add: SE3ExpTransform_inverse_set_def SE3ExpTransform_xset_def full_True_def
      length_se3_xset_spec Let_def)

section \<open>The Jacobian\<close>

text \<open>
  C7. The \<^verbatim>\<open>log_abs_det_jacobian\<close> of the three classes is the same function: for every
  pair \<open>(x, y)\<close> all three return \<^verbatim>\<open>se3_log_abs_det_jacobian(x).float()\<close>.
\<close>

theorem jacobians_identical:
  "SE3ExpTransform_log_abs_det_jacobian jac self1 x y =
     SE3ExpCompactTransform_log_abs_det_jacobian jac self2 x y \<and>
   SE3ExpCompactTransform_log_abs_det_jacobian jac self2 x y =
     SE3ExpBijectiveTransform_log_abs_det_jacobian jac self3 x y \<and>
   SE3ExpBijectiveTransform_log_abs_det_jacobian jac self3 x y = tensor_float (jac x)"
  by (simp add: SE3ExpTransform_log_abs_det_jacobian_def
      SE3ExpCompactTransform_log_abs_det_jacobian_def
      SE3ExpBijectiveTransform_log_abs_det_jacobian_def)

text \<open>
  C9. In each of the three classes \<^verbatim>\<open>log_abs_det_jacobian(x, y)\<close> does not depend on
  \<open>y\<close>: any two group elements give the same value, whether or not they are the
  image of \<open>x\<close>.
\<close>

theorem jacobian_ignores_y:
  "SE3ExpTransform_log_abs_det_jacobian jac self1 x y1 =
     SE3ExpTransform_log_abs_det_jacobian jac self1 x y2 \<and>
   SE3ExpCompactTransform_log_abs_det_jacobian jac self2 x y1 =
     SE3ExpCompactTransform_log_abs_det_jacobian jac self2 x y2 \<and>
   SE3ExpBijectiveTransform_log_abs_det_jacobian jac self3 x y1 =
     SE3ExpBijectiveTransform_log_abs_det_jacobian jac self3 x y2"
  by (simp add: SE3ExpTransform_log_abs_det_jacobian_def
      SE3ExpCompactTransform_log_abs_det_jacobian_def
      SE3ExpBijectiveTransform_log_abs_det_jacobian_def)

section \<open>State kept between calls\<close>

lemma dunder_call_cache_size:
  "Transform_dunder_call f self x n = (y, self', n') \<Longrightarrow> cache_size self' = cache_size self"
  by (auto simp: Transform_dunder_call_def Let_def split: if_splits option.splits prod.splits)

lemma inv_call_cache_size:
  "Transform_inv_call f self y n = (x, self', n') \<Longrightarrow> cache_size self' = cache_size self"
  by (auto simp: Transform_inv_call_def Let_def split: if_splits option.splits prod.splits)

lemma bijective_run_cache_size:
  "bijective_run se3_exp se3_log ops (self, n) = (self', n') \<Longrightarrow>
     cache_size self' = cache_size self"
proof (induction ops arbitrary: self n)
  case Nil
  then show ?case by simp
next
  case (Cons op ops)
  show ?case
  proof (cases op)
    case (Forward x)
    obtain y s1 n1 where step: "SE3ExpBijectiveTransform_forward se3_exp self x n = (y, s1, n1)"
      by (cases "SE3ExpBijectiveTransform_forward se3_exp self x n") auto
    with Cons.prems Forward have "bijective_run se3_exp se3_log ops (s1, n1) = (self', n')"
      by simp
    then have "cache_size self' = cache_size s1"
      by (rule Cons.IH)
    moreover have "cache_size s1 = cache_size self"
      using step unfolding SE3ExpBijectiveTransform_forward_def by (rule dunder_call_cache_size)
    ultimately show ?thesis by simp
  next
    case (Inverse y)
    obtain x s1 n1 where step: "SE3ExpBijectiveTransform_inv se3_log self y n = (x, s1, n1)"
      by (cases "SE3ExpBijectiveTransform_inv se3_log self y n") auto
    with Cons.prems Inverse have "bijective_run se3_exp se3_log ops (s1, n1) = (self', n')"
      by simp
    then have "cache_size self' = cache_size s1"
      by (rule Cons.IH)
    moreover have "cache_size s1 = cache_size self"
      using step unfolding SE3ExpBijectiveTransform_inv_def by (rule inv_call_cache_size)
    ultimately show ?thesis by simp
  qed
qed

lemma bijective_init_cache_size:
  "SE3ExpBijectiveTransform_init = Inr self \<Longrightarrow> cache_size self = 1"
  by (auto simp: SE3ExpBijectiveTransform_init_def Transform_init_def)

lemma full_init_cache_size:
  "SE3ExpTransform_init k = Inr self \<Longrightarrow> cache_size self = 0"
  by (auto simp: SE3ExpTransform_init_def LocalDiffeoTransform_init_def Transform_init_def
      Transform.defs)

lemma compact_init_cache_size:
  "SE3ExpCompactTransform_init r = Inr self \<Longrightarrow> cache_size self = 0"
  by (auto simp: SE3ExpCompactTransform_init_def LocalDiffeoTransform_init_def Transform_init_def
      Transform.defs)

lemma inverse_set_wrapper_state:
  "snd (LocalDiffeoTransform_inverse_set f self y n) = (self, n + 3)"
  by (simp add: LocalDiffeoTransform_inverse_set_def split: prod.splits)

lemma inverse_set_wrapper_data:
  "(\<lambda>(a, b, c). (data a, data b, data c)) (fst (LocalDiffeoTransform_inverse_set f self y n))
     = f (data y)"
  by (simp add: LocalDiffeoTransform_inverse_set_def new_tensor_def split: prod.splits)

lemma bijective_first_forward:
  "SE3ExpBijectiveTransform_forward Exp bijective_fresh \<lparr>ident = 0, data = x_rot1\<rparr> 1 =
     (\<lparr>ident = 1, data = Exp x_rot1\<rparr>,
      \<lparr>cache_size = 1,
       cached_x_y = Some (\<lparr>ident = 0, data = x_rot1\<rparr>, \<lparr>ident = 1, data = Exp x_rot1\<rparr>)\<rparr>,
      2)"
  by (simp add: SE3ExpBijectiveTransform_forward_def Transform_dunder_call_def
      SE3ExpBijectiveTransform_call_def bijective_fresh_def new_tensor_def Let_def)

text \<open>
  C8, as amended. \<^verbatim>\<open>SE3ExpTransform\<close> and \<^verbatim>\<open>SE3ExpCompactTransform\<close> keep no state
  between calls: \<^verbatim>\<open>forward\<close> returns \<^verbatim>\<open>se3_exp(x)\<close> and \<^verbatim>\<open>inverse_set\<close> the triple of
  \<^verbatim>\<open>_inverse_set(y)\<close>, computed from the argument and the configuration, and the object
  is the same after the call. \<^verbatim>\<open>SE3ExpBijectiveTransform\<close> is constructed with cache
  size 1, which no sequence of calls changes, and keeps the latest pair \<open>(x, y)\<close>:
  \<^verbatim>\<open>forward\<close> on the cached \<open>x\<close> object returns the cached \<open>y\<close>, and the inverse on the
  cached \<open>y\<close> object returns the cached \<open>x\<close>, without computing anything and leaving
  the object as it is; every other call computes \<^verbatim>\<open>se3_exp(x)\<close> or \<^verbatim>\<open>se3_log(y)\<close> from
  its argument and replaces the cached pair.
\<close>

theorem transforms_retained_state:
  assumes full: "SE3ExpTransform_init k = Inr t1"
    and compact: "SE3ExpCompactTransform_init r = Inr t2"
    and bij: "SE3ExpBijectiveTransform_init = Inr t0"
    and run: "bijective_run se3_exp se3_log ops (t0, n0) = (t3, n)"
  shows
    "SE3ExpTransform_forward se3_exp t1 x m = (new_tensor m (se3_exp (data x)), t1, Suc m) \<and>
     snd (SE3ExpTransform_public_inverse_set se3_log se3_xset t1 y m) = (t1, m + 3) \<and>
     (\<lambda>(a, b, c). (data a, data b, data c))
        (fst (SE3ExpTransform_public_inverse_set se3_log se3_xset t1 y m)) =
       SE3ExpTransform_inverse_set se3_log se3_xset t1 (data y) \<and>
     SE3ExpCompactTransform_forward se3_exp t2 x m =
       (new_tensor m (se3_exp (data x)), t2, Suc m) \<and>
     snd (SE3ExpCompactTransform_public_inverse_set se3_log se3_xset t2 y m) = (t2, m + 3) \<and>
     (\<lambda>(a, b, c). (data a, data b, data c))
        (fst (SE3ExpCompactTransform_public_inverse_set se3_log se3_xset t2 y m)) =
       SE3ExpCompactTransform_inverse_set se3_log se3_xset t2 (data y) \<and>
     cache_size t3 = 1 \<and>
     SE3ExpBijectiveTransform_forward se3_exp t3 x n =
       (case cached_x_y t3 of
          Some (x_old, y_old) \<Rightarrow>
            if ident x = ident x_old then (y_old, t3, n)
            else (new_tensor n (se3_exp (data x)),
                  t3\<lparr>cached_x_y := Some (x, new_tensor n (se3_exp (data x)))\<rparr>, Suc n)
        | None \<Rightarrow>
            (new_tensor n (se3_exp (data x)),
             t3\<lparr>cached_x_y := Some (x, new_tensor n (se3_exp (data x)))\<rparr>, Suc n)) \<and>
     SE3ExpBijectiveTransform_inv se3_log t3 y n =
       (case cached_x_y t3 of
          Some (x_old, y_old) \<Rightarrow>
            if ident y = ident y_old then (x_old, t3, n)
            else (new_tensor n (se3_log (data y)),
                  t3\<lparr>cached_x_y := Some (new_tensor n (se3_log (data y)), y)\<rparr>, Suc n)
        | None \<Rightarrow>
            (new_tensor n (se3_log (data y)),
             t3\<lparr>cached_x_y := Some (new_tensor n (se3_log (data y)), y)\<rparr>, Suc n))"
proof -
  have c1: "cache_size t1 = 0"
    using full by (rule full_init_cache_size)
  have c2: "cache_size t2 = 0"
    using compact by (rule compact_init_cache_size)
  have c3: "cache_size t3 = 1"
    using bijective_run_cache_size [OF run] bijective_init_cache_size [OF bij] by simp
  have f1: "SE3ExpTransform_forward se3_exp t1 x m = (new_tensor m (se3_exp (data x)), t1, Suc m)"
    using c1 by (simp add: SE3ExpTransform_forward_def Transform_dunder_call_def
        SE3ExpTransform_call_def)
  have f2: "SE3ExpCompactTransform_forward se3_exp t2 x m =
      (new_tensor m (se3_exp (data x)), t2, Suc m)"
    using c2 by (simp add: SE3ExpCompactTransform_forward_def Transform_dunder_call_def
        SE3ExpCompactTransform_call_def)
  have s1: "snd (SE3ExpTransform_public_inverse_set se3_log se3_xset t1 y m) = (t1, m + 3)"
    by (simp add: SE3ExpTransform_public_inverse_set_def inverse_set_wrapper_state)
  have s2: "snd (SE3ExpCompactTransform_public_inverse_set se3_log se3_xset t2 y m) = (t2, m + 3)"
    by (simp add: SE3ExpCompactTransform_public_inverse_set_def inverse_set_wrapper_state)
  have d1: "(\<lambda>(a, b, c). (data a, data b, data c))
        (fst (SE3ExpTransform_public_inverse_set se3_log se3_xset t1 y m)) =
       SE3ExpTransform_inverse_set se3_log se3_xset t1 (data y)"
    unfolding SE3ExpTransform_public_inverse_set_def by (rule inverse_set_wrapper_data)
  have d2: "(\<lambda>(a, b, c). (data a, data b, data c))
        (fst (SE3ExpCompactTransform_public_inverse_set se3_log se3_xset t2 y m)) =
       SE3ExpCompactTransform_inverse_set se3_log se3_xset t2 (data y)"
    unfolding SE3ExpCompactTransform_public_inverse_set_def by (rule inverse_set_wrapper_data)
  have f3: "SE3ExpBijectiveTransform_forward se3_exp t3 x n =
       (case cached_x_y t3 of
          Some (x_old, y_old) \<Rightarrow>
            if ident x = ident x_old then (y_old, t3, n)
            else (new_tensor n (se3_exp (data x)),
                  t3\<lparr>cached_x_y := Some (x, new_tensor n (se3_exp (data x)))\<rparr>, Suc n)
        | None \<Rightarrow>
            (new_tensor n (se3_exp (data x)),
             t3\<lparr>cached_x_y := Some (x, new_tensor n (se3_exp (data x)))\<rparr>, Suc n))"
    using c3 by (simp add: SE3ExpBijectiveTransform_forward_def Transform_dunder_call_def
        SE3ExpBijectiveTransform_call_def Let_def split: option.splits)
  have i3: "SE3ExpBijectiveTransform_inv se3_log t3 y n =
       (case cached_x_y t3 of
          Some (x_old, y_old) \<Rightarrow>
            if ident y = ident y_old then (x_old, t3, n)
            else (new_tensor n (se3_log (data y)),
                  t3\<lparr>cached_x_y := Some (new_tensor n (se3_log (data y)), y)\<rparr>, Suc n)
        | None \<Rightarrow>
            (new_tensor n (se3_log (data y)),
             t3\<lparr>cached_x_y := Some (new_tensor n (se3_log (data y)), y)\<rparr>, Suc n))"
    using c3 by (simp add: SE3ExpBijectiveTransform_inv_def Transform_inv_call_def
        SE3ExpBijectiveTransform_inverse_def Let_def split: option.splits)
  from f1 s1 d1 f2 s2 d2 c3 f3 i3 show ?thesis
    by (intro conjI)
qed

theorem transforms_retained_state_witness:
  "SE3ExpTransform_init 5 = Inr full_default \<and>
   SE3ExpCompactTransform_init (2 * pi) = Inr compact_default \<and>
   SE3ExpBijectiveTransform_init = Inr bijective_fresh \<and>
   bijective_run Exp se3_log_principal [Forward \<lparr>ident = 0, data = x_rot1\<rparr>] (bijective_fresh, 1) =
     (\<lparr>cache_size = 1,
       cached_x_y = Some (\<lparr>ident = 0, data = x_rot1\<rparr>, \<lparr>ident = 1, data = Exp x_rot1\<rparr>)\<rparr>, 2) \<and>
   SE3ExpTransform_forward Exp full_default \<lparr>ident = 0, data = x_rot1\<rparr> 1 =
     (\<lparr>ident = 1, data = Exp x_rot1\<rparr>, full_default, 2) \<and>
   SE3ExpCompactTransform_forward Exp compact_default \<lparr>ident = 0, data = x_rot1\<rparr> 1 =
     (\<lparr>ident = 1, data = Exp x_rot1\<rparr>, compact_default, 2) \<and>
   snd (SE3ExpCompactTransform_public_inverse_set se3_log_principal (se3_xset_spec default_axis)
          compact_default \<lparr>ident = 1, data = Exp x_rot1\<rparr> 1) = (compact_default, 4) \<and>
   SE3ExpBijectiveTransform_inv se3_log_principal
     \<lparr>cache_size = 1,
      cached_x_y = Some (\<lparr>ident = 0, data = x_rot1\<rparr>, \<lparr>ident = 1, data = Exp x_rot1\<rparr>)\<rparr>
     \<lparr>ident = 1, data = Exp x_rot1\<rparr> 2 =
     (\<lparr>ident = 0, data = x_rot1\<rparr>,
      \<lparr>cache_size = 1,
       cached_x_y = Some (\<lparr>ident = 0, data = x_rot1\<rparr>, \<lparr>ident = 1, data = Exp x_rot1\<rparr>)\<rparr>, 2)"
proof -
  have full: "SE3ExpTransform_init 5 = Inr full_default"
    by (rule full_default_init)
  have compact: "SE3ExpCompactTransform_init (2 * pi) = Inr compact_default"
    by (rule compact_default_init)
  have bij: "SE3ExpBijectiveTransform_init = Inr bijective_fresh"
    by (rule bijective_fresh_init)
  have run: "bijective_run Exp se3_log_principal [Forward \<lparr>ident = 0, data = x_rot1\<rparr>]
      (bijective_fresh, 1) =
     (\<lparr>cache_size = 1,
       cached_x_y = Some (\<lparr>ident = 0, data = x_rot1\<rparr>, \<lparr>ident = 1, data = Exp x_rot1\<rparr>)\<rparr>, 2)"
    using bijective_first_forward by simp
  from transforms_retained_state [OF full compact bij run,
      of "\<lparr>ident = 0, data = x_rot1\<rparr>" 1 "se3_xset_spec default_axis"
        "\<lparr>ident = 1, data = Exp x_rot1\<rparr>"]
  show ?thesis
    using full compact bij run by (simp add: new_tensor_def)
qed

text \<open>
  C8, as stated, fails for \<^verbatim>\<open>SE3ExpBijectiveTransform\<close>: the first \<^verbatim>\<open>forward\<close> call on
  a newly constructed transform stores its argument and its result in the object, which
  is no longer the object that was constructed.
\<close>

theorem bijective_forward_counterexample:
  "fst (snd (SE3ExpBijectiveTransform_forward Exp bijective_fresh \<lparr>ident = 0, data = x_rot1\<rparr> 1))
     \<noteq> bijective_fresh"
  by (simp only: bijective_first_forward) (simp add: bijective_fresh_def)

section \<open>The inverse of the bijective transform\<close>

lemma bijective_forward_x_rot4:
  "SE3ExpBijectiveTransform_forward Exp bijective_fresh \<lparr>ident = 0, data = x_rot4\<rparr> 1 =
     (\<lparr>ident = 1, data = Exp x_rot4\<rparr>,
      \<lparr>cache_size = 1,
       cached_x_y = Some (\<lparr>ident = 0, data = x_rot4\<rparr>, \<lparr>ident = 1, data = Exp x_rot4\<rparr>)\<rparr>,
      2)"
  by (simp add: SE3ExpBijectiveTransform_forward_def Transform_dunder_call_def
      SE3ExpBijectiveTransform_call_def bijective_fresh_def new_tensor_def Let_def)

text \<open>
  C6, as amended. The inverse of \<^verbatim>\<open>SE3ExpBijectiveTransform\<close> is single-valued, with no
  branch enumeration and no mask. \<^verbatim>\<open>_inverse(y)\<close> is exactly \<^verbatim>\<open>se3_log(y)\<close>. In every
  state that calls can bring a constructed transform to, the public inverse returns a
  new tensor holding \<^verbatim>\<open>se3_log(y)\<close> of its input, except when its argument is the
  cached \<open>y\<close> object: then it returns the cached \<open>x\<close> object and computes no logarithm.
\<close>

theorem bijective_inverse_log_or_cached:
  assumes init: "SE3ExpBijectiveTransform_init = Inr t0"
    and run: "bijective_run se3_exp se3_log ops (t0, n0) = (self, n)"
  shows "SE3ExpBijectiveTransform_inverse se3_log self (data y) = se3_log (data y) \<and>
         fst (SE3ExpBijectiveTransform_inv se3_log self y n) =
           (case cached_x_y self of
              Some (x_old, y_old) \<Rightarrow>
                if ident y = ident y_old then x_old else new_tensor n (se3_log (data y))
            | None \<Rightarrow> new_tensor n (se3_log (data y)))"
proof -
  have size: "cache_size self = 1"
    using bijective_run_cache_size [OF run] bijective_init_cache_size [OF init] by simp
  have raw: "SE3ExpBijectiveTransform_inverse se3_log self (data y) = se3_log (data y)"
    by (simp add: SE3ExpBijectiveTransform_inverse_def)
  have pub: "fst (SE3ExpBijectiveTransform_inv se3_log self y n) =
           (case cached_x_y self of
              Some (x_old, y_old) \<Rightarrow>
                if ident y = ident y_old then x_old else new_tensor n (se3_log (data y))
            | None \<Rightarrow> new_tensor n (se3_log (data y)))"
    using size
    by (simp add: SE3ExpBijectiveTransform_inv_def Transform_inv_call_def
        SE3ExpBijectiveTransform_inverse_def Let_def split: option.splits)
  from raw pub show ?thesis
    by (intro conjI)
qed

theorem bijective_inverse_log_or_cached_witness:
  "SE3ExpBijectiveTransform_init = Inr bijective_fresh \<and>
   bijective_run Exp se3_log_principal [Forward \<lparr>ident = 0, data = x_rot4\<rparr>] (bijective_fresh, 1) =
     (\<lparr>cache_size = 1,
       cached_x_y = Some (\<lparr>ident = 0, data = x_rot4\<rparr>, \<lparr>ident = 1, data = Exp x_rot4\<rparr>)\<rparr>, 2) \<and>
   fst (SE3ExpBijectiveTransform_inv se3_log_principal
     \<lparr>cache_size = 1,
      cached_x_y = Some (\<lparr>ident = 0, data = x_rot4\<rparr>, \<lparr>ident = 1, data = Exp x_rot4\<rparr>)\<rparr>
     \<lparr>ident = 1, data = Exp x_rot4\<rparr> 2) = \<lparr>ident = 0, data = x_rot4\<rparr> \<and>
   fst (SE3ExpBijectiveTransform_inv se3_log_principal
     \<lparr>cache_size = 1,
      cached_x_y = Some (\<lparr>ident = 0, data = x_rot4\<rparr>, \<lparr>ident = 1, data = Exp x_rot4\<rparr>)\<rparr>
     \<lparr>ident = 7, data = Exp x_rot4\<rparr> 2) = \<lparr>ident = 2, data = [0, 0, 4 - 2 * pi, 0, 0, 0]\<rparr>"
proof -
  have init: "SE3ExpBijectiveTransform_init = Inr bijective_fresh"
    by (rule bijective_fresh_init)
  have run: "bijective_run Exp se3_log_principal [Forward \<lparr>ident = 0, data = x_rot4\<rparr>]
      (bijective_fresh, 1) =
     (\<lparr>cache_size = 1,
       cached_x_y = Some (\<lparr>ident = 0, data = x_rot4\<rparr>, \<lparr>ident = 1, data = Exp x_rot4\<rparr>)\<rparr>, 2)"
    using bijective_forward_x_rot4 by simp
  from bijective_inverse_log_or_cached [OF init run, of "\<lparr>ident = 1, data = Exp x_rot4\<rparr>"]
    bijective_inverse_log_or_cached [OF init run, of "\<lparr>ident = 7, data = Exp x_rot4\<rparr>"]
  show ?thesis
    using init run by (simp add: new_tensor_def se3_log_principal_x_rot4)
qed

text \<open>
  C6, as stated, fails after one \<^verbatim>\<open>forward\<close> call on the rotation by four radians:
  the inverse, called on the tensor that call returned, gives back the cached argument
  of rotational norm 4, while the principal logarithm of that group element is the
  wrapped rotation by \<open>4 - 2\<pi>\<close>.
\<close>

theorem bijective_inverse_cached_counterexample:
  "data (fst (SE3ExpBijectiveTransform_inv se3_log_principal
       (fst (snd (SE3ExpBijectiveTransform_forward Exp bijective_fresh
          \<lparr>ident = 0, data = x_rot4\<rparr> 1)))
       (fst (SE3ExpBijectiveTransform_forward Exp bijective_fresh
          \<lparr>ident = 0, data = x_rot4\<rparr> 1)) 2))
     \<noteq> se3_log_principal (data (fst (SE3ExpBijectiveTransform_forward Exp bijective_fresh
          \<lparr>ident = 0, data = x_rot4\<rparr> 1)))"
proof -
  have hit: "data (fst (SE3ExpBijectiveTransform_inv se3_log_principal
       \<lparr>cache_size = 1,
        cached_x_y = Some (\<lparr>ident = 0, data = x_rot4\<rparr>, \<lparr>ident = 1, data = Exp x_rot4\<rparr>)\<rparr>
       \<lparr>ident = 1, data = Exp x_rot4\<rparr> 2)) = x_rot4"
    by (simp add: SE3ExpBijectiveTransform_inv_def Transform_inv_call_def)
  have differ: "x_rot4 \<noteq> [0, 0, 4 - 2 * pi, 0, 0, 0]"
    using pi_ge_two by (simp add: x_rot4_def)
  show ?thesis
    unfolding bijective_forward_x_rot4 using hit differ
    by (simp add: se3_log_principal_x_rot4)
qed

end
